theory Spec2Isabelle
  imports Main
begin

section \<open>The data model (backend/recipes/models.py)\<close>

text \<open>
  Every Django model is a record of the columns the verified views read or write, and a
  table is the list of its rows in the order in which the database yields them to a query
  that asks for no order. That order need not be the order of creation (\<open>added_date\<close>, or
  the primary key). A foreign key is the primary key of the row it points to.
\<close>

type_synonym pk = nat

text \<open>\<^verbatim>\<open>Ingredient\<close>: \<^verbatim>\<open>measurement_unit\<close> is a \<^verbatim>\<open>CharField\<close> holding the stored value of
  a \<^verbatim>\<open>Unit\<close> choice.\<close>

record Ingredient =
  ingredient_id :: pk
  name :: string
  measurement_unit :: string

definition GRAM :: string where
  "GRAM = ''gram''"

definition KILOGRAM :: string where
  "KILOGRAM = ''kilogram''"

record Recipe =
  recipe_id :: pk
  author :: pk
  recipe_name :: string

text \<open>\<^verbatim>\<open>RecipeIngredients.amount\<close> is declared \<^verbatim>\<open>null=True\<close>: \<open>None\<close> is SQL NULL, read by
  Python as \<^verbatim>\<open>None\<close>.\<close>

record RecipeIngredients =
  ri_id :: pk
  ri_recipe :: pk
  ri_ingredient :: pk
  amount :: "int option"

record ShoppingCart =
  sc_id :: pk
  sc_user :: pk
  sc_recipe :: pk
  added_date :: nat

record database =
  Ingredient_objects :: "Ingredient list"
  Recipe_objects :: "Recipe list"
  RecipeIngredients_objects :: "RecipeIngredients list"
  ShoppingCart_objects :: "ShoppingCart list"

text \<open>The exceptions the modelled code can raise.\<close>

datatype error = TypeError | DoesNotExist | MultipleObjectsReturned

text \<open>The constraint \<^verbatim>\<open>unique_recipe_ingredient\<close> of \<^verbatim>\<open>Ingredient.Meta\<close>: the pair
  (name, measurement unit) is unique, the name alone is not.\<close>

definition unique_recipe_ingredient :: "database \<Rightarrow> bool" where
  "unique_recipe_ingredient db =
     distinct (map (\<lambda>i. (name i, measurement_unit i)) (Ingredient_objects db))"

text \<open>The constraint \<^verbatim>\<open>unique_shopping_cart\<close> of \<^verbatim>\<open>ShoppingCart.Meta\<close>.\<close>

definition unique_shopping_cart :: "database \<Rightarrow> bool" where
  "unique_shopping_cart db =
     distinct (map (\<lambda>r. (sc_user r, sc_recipe r)) (ShoppingCart_objects db))"

text \<open>Primary keys of cart rows are unique.\<close>

definition unique_cart_ids :: "database \<Rightarrow> bool" where
  "unique_cart_ids db = distinct (map sc_id (ShoppingCart_objects db))"

text \<open>The foreign keys the shopping list follows point to existing rows (the database
  enforces it: both are \<^verbatim>\<open>ForeignKey\<close> columns with \<^verbatim>\<open>on_delete=CASCADE\<close>).\<close>

definition fk_integrity :: "database \<Rightarrow> bool" where
  "fk_integrity db \<longleftrightarrow>
     list_all (\<lambda>r. find (\<lambda>x. recipe_id x = sc_recipe r) (Recipe_objects db) \<noteq> None)
       (ShoppingCart_objects db) \<and>
     list_all (\<lambda>l. find (\<lambda>x. ingredient_id x = ri_ingredient l) (Ingredient_objects db) \<noteq> None)
       (RecipeIngredients_objects db)"

section \<open>Database reads\<close>

text \<open>
  Each query takes the database and returns it with its answer, so that what a view does
  to the persisted state is a property of the view. The view's query sets have no
  \<^verbatim>\<open>order_by\<close>, and \<^verbatim>\<open>ShoppingCart\<close> and \<^verbatim>\<open>RecipeIngredients\<close> have no \<^verbatim>\<open>Meta.ordering\<close>: the
  rows come in the order of the table.
\<close>

text \<open>\<^verbatim>\<open>user.shopping_cart.all()\<close>\<close>

definition user_shopping_cart_all :: "pk \<Rightarrow> database \<Rightarrow> ShoppingCart list \<times> database" where
  "user_shopping_cart_all user db =
     (filter (\<lambda>r. sc_user r = user) (ShoppingCart_objects db), db)"

text \<open>\<^verbatim>\<open>record.recipe\<close>\<close>

definition record_recipe :: "ShoppingCart \<Rightarrow> database \<Rightarrow> (error + Recipe) \<times> database" where
  "record_recipe r db =
     (case find (\<lambda>x. recipe_id x = sc_recipe r) (Recipe_objects db) of
        None \<Rightarrow> (Inl DoesNotExist, db)
      | Some x \<Rightarrow> (Inr x, db))"

text \<open>\<^verbatim>\<open>RecipeIngredients.objects.filter(recipe=recipe)\<close>\<close>

definition RecipeIngredients_filter ::
  "Recipe \<Rightarrow> database \<Rightarrow> RecipeIngredients list \<times> database" where
  "RecipeIngredients_filter recipe db =
     (filter (\<lambda>l. ri_recipe l = recipe_id recipe) (RecipeIngredients_objects db), db)"

text \<open>\<^verbatim>\<open>ingredient.ingredient\<close>\<close>

definition line_ingredient ::
  "RecipeIngredients \<Rightarrow> database \<Rightarrow> (error + Ingredient) \<times> database" where
  "line_ingredient l db =
     (case find (\<lambda>x. ingredient_id x = ri_ingredient l) (Ingredient_objects db) of
        None \<Rightarrow> (Inl DoesNotExist, db)
      | Some x \<Rightarrow> (Inr x, db))"

section \<open>The shopping list (download\_shopping\_cart, backend/recipes/views.py)\<close>

text \<open>
  \<^verbatim>\<open>buying_list\<close> is a Python dict, which keeps its keys in insertion order: an association
  list with distinct keys, a new key appended at the end. Its values are the dicts
  \<^verbatim>\<open>{'measurement_unit': ..., 'amount': ...}\<close>.
\<close>

record data =
  data_measurement_unit :: string
  data_amount :: "int option"

type_synonym buying_list = "(string \<times> data) list"

text \<open>\<^verbatim>\<open>d[k] = v\<close> for a key that is in the dict: the value changes, the position stays.\<close>

fun dict_set :: "('k \<times> 'v) list \<Rightarrow> 'k \<Rightarrow> 'v \<Rightarrow> ('k \<times> 'v) list" where
  "dict_set [] k v = [(k, v)]"
| "dict_set ((k', v') # kvs) k v =
     (if k' = k then (k, v) # kvs else (k', v') # dict_set kvs k v)"

text \<open>Python's \<^verbatim>\<open>+\<close> on what the column holds: an \<^verbatim>\<open>int\<close> or \<^verbatim>\<open>None\<close>.\<close>

fun py_add :: "int option \<Rightarrow> int option \<Rightarrow> error + int option" where
  "py_add (Some a) (Some b) = Inr (Some (a + b))"
| "py_add _ _ = Inl TypeError"

text \<open>The body of the inner loop (lines 154--164), once the ingredient is fetched.\<close>

definition add_ingredient ::
  "buying_list \<Rightarrow> string \<Rightarrow> string \<Rightarrow> int option \<Rightarrow> error + buying_list" where
  "add_ingredient bl n u a =
     (case map_of bl n of
        None \<Rightarrow> Inr (bl @ [(n, \<lparr>data_measurement_unit = u, data_amount = a\<rparr>)])
      | Some d \<Rightarrow>
          (case py_add (data_amount d) a of
             Inl e \<Rightarrow> Inl e
           | Inr s \<Rightarrow> Inr (dict_set bl n (d\<lparr>data_amount := s\<rparr>))))"

text \<open>\<^verbatim>\<open>for ingredient in ingredients: ...\<close> (lines 153--164).\<close>

fun ingredients_loop ::
  "RecipeIngredients list \<Rightarrow> buying_list \<Rightarrow> database \<Rightarrow> (error + buying_list) \<times> database" where
  "ingredients_loop [] bl db = (Inr bl, db)"
| "ingredients_loop (l # ls) bl db =
     (case line_ingredient l db of
        (Inl e, db') \<Rightarrow> (Inl e, db')
      | (Inr i, db') \<Rightarrow>
          (case add_ingredient bl (name i) (measurement_unit i) (amount l) of
             Inl e \<Rightarrow> (Inl e, db')
           | Inr bl' \<Rightarrow> ingredients_loop ls bl' db'))"

text \<open>\<^verbatim>\<open>for record in shopping_cart: ...\<close> (lines 150--164).\<close>

fun shopping_cart_loop ::
  "ShoppingCart list \<Rightarrow> buying_list \<Rightarrow> database \<Rightarrow> (error + buying_list) \<times> database" where
  "shopping_cart_loop [] bl db = (Inr bl, db)"
| "shopping_cart_loop (r # rs) bl db =
     (case record_recipe r db of
        (Inl e, db1) \<Rightarrow> (Inl e, db1)
      | (Inr recipe, db1) \<Rightarrow>
          (case RecipeIngredients_filter recipe db1 of
             (ingredients, db2) \<Rightarrow>
               (case ingredients_loop ingredients bl db2 of
                  (Inl e, db3) \<Rightarrow> (Inl e, db3)
                | (Inr bl', db3) \<Rightarrow> shopping_cart_loop rs bl' db3)))"

text \<open>Lines 147--164 of \<^verbatim>\<open>download_shopping_cart\<close>: the dict is built from the user's cart.\<close>

definition aggregate :: "pk \<Rightarrow> database \<Rightarrow> (error + buying_list) \<times> database" where
  "aggregate user db =
     (case user_shopping_cart_all user db of
        (shopping_cart, db') \<Rightarrow> shopping_cart_loop shopping_cart [] db')"

section \<open>The document\<close>

text \<open>Python's \<^verbatim>\<open>str\<close> of an \<^verbatim>\<open>int\<close>, and of what an f-string prints for \<^verbatim>\<open>None\<close>.\<close>

definition digit_char :: "nat \<Rightarrow> char" where
  "digit_char d = ''0123456789'' ! d"

function str_nat :: "nat \<Rightarrow> string" where
  "str_nat n = (if n < 10 then [digit_char n] else str_nat (n div 10) @ [digit_char (n mod 10)])"
  by pat_completeness auto
termination
  by (relation "measure (\<lambda>n. n)") auto

declare str_nat.simps [simp del]

definition str_int :: "int \<Rightarrow> string" where
  "str_int i = (if i < 0 then CHR ''-'' # str_nat (nat (- i)) else str_nat (nat i))"

fun py_str :: "int option \<Rightarrow> string" where
  "py_str None = ''None''"
| "py_str (Some i) = str_int i"

text \<open>\<^verbatim>\<open>f"{name} ({data['measurement_unit']}) - {data['amount']}"\<close>\<close>

definition item_text :: "string \<times> data \<Rightarrow> string" where
  "item_text item =
     fst item @ '' ('' @ data_measurement_unit (snd item) @ '') - '' @ py_str (data_amount (snd item))"

text \<open>The calls made on the reportlab canvas: the canvas is the list of them, the bytes
  of the PDF are the library's.\<close>

datatype canvas_op = SetFont string nat | DrawString int int string | ShowPage | Save

text \<open>\<^verbatim>\<open>for name, data in buying_list.items(): p.drawString(50, height, ...); height -= 25\<close>\<close>

fun draw_items :: "buying_list \<Rightarrow> int \<Rightarrow> canvas_op list" where
  "draw_items [] height = []"
| "draw_items (item # items) height =
     DrawString 50 height (item_text item) # draw_items items (height - 25)"

text \<open>\<^verbatim>\<open>datetime.datetime.now()\<close> is an input of the view: the clock as it reads at the call.\<close>

record datetime =
  year :: nat
  month :: nat
  day :: nat
  hour :: nat
  minute :: nat
  second :: nat

definition zfill :: "nat \<Rightarrow> string \<Rightarrow> string" where
  "zfill w s = replicate (w - length s) CHR ''0'' @ s"

text \<open>The directives of \<^verbatim>\<open>strftime\<close> the view uses. The fields of two digits are padded
  with zeros; the year is printed as the number it is (the C library of a Linux host does
  not pad \<^verbatim>\<open>%Y\<close>), so it has four digits from the year 1000 on.\<close>

definition directive :: "datetime \<Rightarrow> char \<Rightarrow> string" where
  "directive dt c =
     (if c = CHR ''m'' then zfill 2 (str_nat (month dt))
      else if c = CHR ''d'' then zfill 2 (str_nat (day dt))
      else if c = CHR ''Y'' then str_nat (year dt)
      else if c = CHR ''H'' then zfill 2 (str_nat (hour dt))
      else if c = CHR ''M'' then zfill 2 (str_nat (minute dt))
      else if c = CHR ''S'' then zfill 2 (str_nat (second dt))
      else if c = CHR ''%'' then ''%''
      else [CHR ''%'', c])"

fun strftime :: "datetime \<Rightarrow> string \<Rightarrow> string" where
  "strftime dt [] = []"
| "strftime dt [c] = [c]"
| "strftime dt (c # d # cs) =
     (if c = CHR ''%'' then directive dt d @ strftime dt cs else c # strftime dt (d # cs))"

record HttpResponse =
  content_type :: string
  headers :: "(string \<times> string) list"
  content :: "canvas_op list"

definition dquote :: char where
  "dquote = CHR 0x22"

text \<open>\<^verbatim>\<open>download_shopping_cart(request)\<close>, with \<^verbatim>\<open>request.user\<close> and the clock as arguments.
  Registering the font and turning the canvas into the bytes of a PDF are reportlab's.\<close>

definition download_shopping_cart ::
  "pk \<Rightarrow> datetime \<Rightarrow> database \<Rightarrow> (error + HttpResponse) \<times> database" where
  "download_shopping_cart user clock db =
     (case aggregate user db of
        (Inl e, db') \<Rightarrow> (Inl e, db')
      | (Inr bl, db') \<Rightarrow>
          (let file_name = ''buying_list'';
               now = strftime clock ''%m/%d/%Y, %H:%M:%S'';
               p = [SetFont ''DejaVuSerif'' 15] @ draw_items bl 800 @ [ShowPage, Save]
           in (Inr \<lparr>content_type = ''application/pdf'',
                     headers = [(''Content-Disposition'',
                       ''attachment; filename='' @ [dquote] @ file_name @ ''_'' @ now
                         @ ''.pdf'' @ [dquote])],
                     content = p\<rparr>, db')))"

section \<open>The cart (ShoppingCartViewSet, backend/recipes/views.py)\<close>

text \<open>What a REST response carries: \<open>AlreadyInCart\<close> is the message of line 123.\<close>

datatype response_data = AlreadyInCart | SerializerErrors | SerializerData pk pk | NoData

record Response =
  status :: nat
  response_data :: response_data

text \<open>\<^verbatim>\<open>ShoppingCart.objects.filter(user=..., recipe__id=...)\<close>\<close>

definition ShoppingCart_filter :: "pk \<Rightarrow> pk \<Rightarrow> database \<Rightarrow> ShoppingCart list" where
  "ShoppingCart_filter user rid db =
     filter (\<lambda>r. sc_user r = user \<and> sc_recipe r = rid) (ShoppingCart_objects db)"

text \<open>The primary key the database gives a new cart row.\<close>

definition next_cart_id :: "database \<Rightarrow> pk" where
  "next_cart_id db = Suc (fold max (map sc_id (ShoppingCart_objects db)) 0)"

text \<open>
  Modelled from the spec: \<^verbatim>\<open>ShoppingCartSerializer\<close> (backend/recipes/serializers.py) is not
  among the sources. The spec has a cart entry "created on add-to-cart action" as the
  triple (user reference, recipe reference, added timestamp): \<^verbatim>\<open>serializer.save()\<close> inserts
  that row. What \<^verbatim>\<open>serializer.is_valid()\<close> accepts is a parameter of the view.
\<close>

definition serializer_save :: "pk \<Rightarrow> pk \<Rightarrow> nat \<Rightarrow> database \<Rightarrow> database" where
  "serializer_save user rid t db =
     db\<lparr>ShoppingCart_objects := ShoppingCart_objects db @
          [\<lparr>sc_id = next_cart_id db, sc_user = user, sc_recipe = rid, added_date = t\<rparr>]\<rparr>"

text \<open>\<^verbatim>\<open>ShoppingCartViewSet.get(request, recipe_id)\<close>\<close>

definition ShoppingCartViewSet_get ::
  "(pk \<Rightarrow> pk \<Rightarrow> database \<Rightarrow> bool) \<Rightarrow> pk \<Rightarrow> pk \<Rightarrow> nat \<Rightarrow> database \<Rightarrow> Response \<times> database" where
  "ShoppingCartViewSet_get is_valid user rid t db =
     (let shopping_cart_exist = (ShoppingCart_filter user rid db \<noteq> [])
      in if shopping_cart_exist
         then (\<lparr>status = 400, response_data = AlreadyInCart\<rparr>, db)
         else if \<not> is_valid user rid db
         then (\<lparr>status = 400, response_data = SerializerErrors\<rparr>, db)
         else (\<lparr>status = 201, response_data = SerializerData user rid\<rparr>,
               serializer_save user rid t db))"

text \<open>\<^verbatim>\<open>ShoppingCartViewSet.delete(request, recipe_id)\<close>: \<^verbatim>\<open>get_object_or_404\<close> answers 404,
  \<^verbatim>\<open>objects.get\<close> raises unless exactly one row matches, \<^verbatim>\<open>delete()\<close> removes the row of
  that primary key.\<close>

definition ShoppingCartViewSet_delete ::
  "pk \<Rightarrow> pk \<Rightarrow> database \<Rightarrow> (error + Response) \<times> database" where
  "ShoppingCartViewSet_delete user rid db =
     (case find (\<lambda>x. recipe_id x = rid) (Recipe_objects db) of
        None \<Rightarrow> (Inr \<lparr>status = 404, response_data = NoData\<rparr>, db)
      | Some recipe \<Rightarrow>
          if ShoppingCart_filter user (recipe_id recipe) db = []
          then (Inr \<lparr>status = 400, response_data = NoData\<rparr>, db)
          else
            (case ShoppingCart_filter user (recipe_id recipe) db of
               [] \<Rightarrow> (Inl DoesNotExist, db)
             | [r] \<Rightarrow>
                 (Inr \<lparr>status = 204, response_data = NoData\<rparr>,
                  db\<lparr>ShoppingCart_objects :=
                       filter (\<lambda>x. sc_id x \<noteq> sc_id r) (ShoppingCart_objects db)\<rparr>)
             | _ \<Rightarrow> (Inl MultipleObjectsReturned, db)))"

text \<open>
  Deleting a recipe (\<^verbatim>\<open>RecipeViewSet\<close> is a \<^verbatim>\<open>ModelViewSet\<close>): with \<^verbatim>\<open>on_delete=CASCADE\<close> on
  \<^verbatim>\<open>RecipeIngredients.recipe\<close> and \<^verbatim>\<open>ShoppingCart.recipe\<close>, the rows that point to the recipe
  go with it.
\<close>

definition Recipe_delete :: "pk \<Rightarrow> database \<Rightarrow> database" where
  "Recipe_delete rid db =
     db\<lparr>Recipe_objects := filter (\<lambda>x. recipe_id x \<noteq> rid) (Recipe_objects db),
        RecipeIngredients_objects :=
          filter (\<lambda>l. ri_recipe l \<noteq> rid) (RecipeIngredients_objects db),
        ShoppingCart_objects := filter (\<lambda>r. sc_recipe r \<noteq> rid) (ShoppingCart_objects db)\<rparr>"

section \<open>The cart as the loops traverse it\<close>

text \<open>
  A line of the cart is a recipe-ingredient row joined with its ingredient: the name, the
  unit and the amount the inner loop reads.
\<close>

record cart_line =
  cl_name :: string
  cl_unit :: string
  cl_amount :: "int option"

definition joined :: "database \<Rightarrow> RecipeIngredients \<Rightarrow> cart_line" where
  "joined db l =
     (let i = the (find (\<lambda>x. ingredient_id x = ri_ingredient l) (Ingredient_objects db))
      in \<lparr>cl_name = name i, cl_unit = measurement_unit i, cl_amount = amount l\<rparr>)"

text \<open>The traversal order: the user's cart rows in the order of the table and, for each,
  the rows of its recipe in the order of the table.\<close>

definition cart_rows :: "pk \<Rightarrow> database \<Rightarrow> RecipeIngredients list" where
  "cart_rows user db =
     concat (map (\<lambda>r. filter (\<lambda>l. ri_recipe l = sc_recipe r) (RecipeIngredients_objects db))
                 (filter (\<lambda>r. sc_user r = user) (ShoppingCart_objects db)))"

definition cart_lines :: "pk \<Rightarrow> database \<Rightarrow> cart_line list" where
  "cart_lines user db = map (joined db) (cart_rows user db)"

text \<open>The two loops as one pass over the lines.\<close>

fun accumulate :: "cart_line list \<Rightarrow> buying_list \<Rightarrow> error + buying_list" where
  "accumulate [] bl = Inr bl"
| "accumulate (t # ts) bl =
     (case add_ingredient bl (cl_name t) (cl_unit t) (cl_amount t) of
        Inl e \<Rightarrow> Inl e
      | Inr bl' \<Rightarrow> accumulate ts bl')"

text \<open>The distinct elements of a list in the order of their first occurrence.\<close>

fun first_seen :: "'a list \<Rightarrow> 'a list" where
  "first_seen [] = []"
| "first_seen (x # xs) = x # first_seen (filter (\<lambda>y. y \<noteq> x) xs)"

text \<open>Two lines of one name, one of them without an amount: the second of them makes the
  loop add \<^verbatim>\<open>None\<close>.\<close>

fun null_clash :: "cart_line list \<Rightarrow> bool" where
  "null_clash [] = False"
| "null_clash (t # ts) =
     ((\<exists>u \<in> set ts. cl_name u = cl_name t \<and> (cl_amount t = None \<or> cl_amount u = None))
      \<or> null_clash ts)"

definition amounts_of :: "string \<Rightarrow> cart_line list \<Rightarrow> int option list" where
  "amounts_of n ts = map cl_amount (filter (\<lambda>t. cl_name t = n) ts)"

definition first_unit :: "string \<Rightarrow> cart_line list \<Rightarrow> string" where
  "first_unit n ts = (case find (\<lambda>t. cl_name t = n) ts of None \<Rightarrow> [] | Some t \<Rightarrow> cl_unit t)"

definition running_total :: "int option list \<Rightarrow> int option" where
  "running_total as = (case as of [a] \<Rightarrow> a | _ \<Rightarrow> Some (sum_list (map the as)))"

text \<open>The dict the loops build when no addition fails.\<close>

definition expected :: "cart_line list \<Rightarrow> buying_list" where
  "expected ts =
     map (\<lambda>n. (n, \<lparr>data_measurement_unit = first_unit n ts,
                    data_amount = running_total (amounts_of n ts)\<rparr>))
         (first_seen (map cl_name ts))"

text \<open>The strings drawn on a canvas, in the order of the calls.\<close>

fun drawn_text :: "canvas_op list \<Rightarrow> string list" where
  "drawn_text [] = []"
| "drawn_text (DrawString x y s # ops) = s # drawn_text ops"
| "drawn_text (_ # ops) = drawn_text ops"

subsection \<open>Example databases\<close>

text \<open>User 7 has two recipes in the cart, both with sugar measured in grams.\<close>

definition sugar_db :: database where
  "sugar_db =
     \<lparr>Ingredient_objects =
        [\<lparr>ingredient_id = 1, name = ''Sugar'', measurement_unit = GRAM\<rparr>,
         \<lparr>ingredient_id = 2, name = ''Flour'', measurement_unit = GRAM\<rparr>],
      Recipe_objects =
        [\<lparr>recipe_id = 1, author = 3, recipe_name = ''Cake''\<rparr>,
         \<lparr>recipe_id = 2, author = 3, recipe_name = ''Pie''\<rparr>],
      RecipeIngredients_objects =
        [\<lparr>ri_id = 1, ri_recipe = 1, ri_ingredient = 1, amount = Some 100\<rparr>,
         \<lparr>ri_id = 2, ri_recipe = 1, ri_ingredient = 2, amount = Some 300\<rparr>,
         \<lparr>ri_id = 3, ri_recipe = 2, ri_ingredient = 1, amount = Some 50\<rparr>],
      ShoppingCart_objects =
        [\<lparr>sc_id = 1, sc_user = 7, sc_recipe = 1, added_date = 10\<rparr>,
         \<lparr>sc_id = 2, sc_user = 7, sc_recipe = 2, added_date = 11\<rparr>]\<rparr>"

text \<open>Two ingredients named Sugar, one in grams and one in kilograms.\<close>

definition units_db :: database where
  "units_db =
     \<lparr>Ingredient_objects =
        [\<lparr>ingredient_id = 1, name = ''Sugar'', measurement_unit = GRAM\<rparr>,
         \<lparr>ingredient_id = 2, name = ''Sugar'', measurement_unit = KILOGRAM\<rparr>],
      Recipe_objects =
        [\<lparr>recipe_id = 1, author = 3, recipe_name = ''Cake''\<rparr>,
         \<lparr>recipe_id = 2, author = 3, recipe_name = ''Jam''\<rparr>],
      RecipeIngredients_objects =
        [\<lparr>ri_id = 1, ri_recipe = 1, ri_ingredient = 1, amount = Some 100\<rparr>,
         \<lparr>ri_id = 2, ri_recipe = 2, ri_ingredient = 2, amount = Some 2\<rparr>],
      ShoppingCart_objects =
        [\<lparr>sc_id = 1, sc_user = 7, sc_recipe = 1, added_date = 10\<rparr>,
         \<lparr>sc_id = 2, sc_user = 7, sc_recipe = 2, added_date = 11\<rparr>]\<rparr>"

text \<open>The first recipe of the cart has sugar without an amount.\<close>

definition null_db :: database where
  "null_db =
     \<lparr>Ingredient_objects =
        [\<lparr>ingredient_id = 1, name = ''Sugar'', measurement_unit = GRAM\<rparr>],
      Recipe_objects =
        [\<lparr>recipe_id = 1, author = 3, recipe_name = ''Cake''\<rparr>,
         \<lparr>recipe_id = 2, author = 3, recipe_name = ''Pie''\<rparr>],
      RecipeIngredients_objects =
        [\<lparr>ri_id = 1, ri_recipe = 1, ri_ingredient = 1, amount = None\<rparr>,
         \<lparr>ri_id = 2, ri_recipe = 2, ri_ingredient = 1, amount = Some 50\<rparr>],
      ShoppingCart_objects =
        [\<lparr>sc_id = 1, sc_user = 7, sc_recipe = 1, added_date = 10\<rparr>,
         \<lparr>sc_id = 2, sc_user = 7, sc_recipe = 2, added_date = 11\<rparr>]\<rparr>"

definition example_clock :: datetime where
  "example_clock = \<lparr>year = 2024, month = 3, day = 5, hour = 7, minute = 8, second = 9\<rparr>"

text \<open>As \<open>units_db\<close>, the row in kilograms without an amount.\<close>

definition units_null_db :: database where
  "units_null_db =
     units_db\<lparr>RecipeIngredients_objects :=
       [\<lparr>ri_id = 1, ri_recipe = 1, ri_ingredient = 1, amount = Some 100\<rparr>,
        \<lparr>ri_id = 2, ri_recipe = 2, ri_ingredient = 2, amount = None\<rparr>]\<rparr>"

text \<open>The cart entry created later (primary key 2, added at 11) comes first in the table.\<close>

definition reordered_db :: database where
  "reordered_db =
     \<lparr>Ingredient_objects =
        [\<lparr>ingredient_id = 1, name = ''Sugar'', measurement_unit = GRAM\<rparr>,
         \<lparr>ingredient_id = 2, name = ''Flour'', measurement_unit = GRAM\<rparr>],
      Recipe_objects =
        [\<lparr>recipe_id = 1, author = 3, recipe_name = ''Cake''\<rparr>,
         \<lparr>recipe_id = 2, author = 3, recipe_name = ''Bread''\<rparr>],
      RecipeIngredients_objects =
        [\<lparr>ri_id = 1, ri_recipe = 1, ri_ingredient = 1, amount = Some 100\<rparr>,
         \<lparr>ri_id = 2, ri_recipe = 2, ri_ingredient = 2, amount = Some 300\<rparr>],
      ShoppingCart_objects =
        [\<lparr>sc_id = 2, sc_user = 7, sc_recipe = 2, added_date = 11\<rparr>,
         \<lparr>sc_id = 1, sc_user = 7, sc_recipe = 1, added_date = 10\<rparr>]\<rparr>"

text \<open>The lines of the cart with the cart entries taken in the order of their creation.\<close>

definition cart_lines_by_creation :: "pk \<Rightarrow> database \<Rightarrow> cart_line list" where
  "cart_lines_by_creation user db =
     map (joined db)
       (concat (map (\<lambda>r. filter (\<lambda>l. ri_recipe l = sc_recipe r) (RecipeIngredients_objects db))
                    (sort_key added_date
                       (filter (\<lambda>r. sc_user r = user) (ShoppingCart_objects db)))))"

text \<open>A validity check for the examples: the recipe exists.\<close>

definition recipe_exists :: "pk \<Rightarrow> pk \<Rightarrow> database \<Rightarrow> bool" where
  "recipe_exists user rid db \<longleftrightarrow> find (\<lambda>x. recipe_id x = rid) (Recipe_objects db) \<noteq> None"

text \<open>What the view builds and answers for user 7 on \<open>sugar_db\<close> at \<open>example_clock\<close>.\<close>

definition sugar_list :: buying_list where
  "sugar_list =
     [(''Sugar'', \<lparr>data_measurement_unit = ''gram'', data_amount = Some 150\<rparr>),
      (''Flour'', \<lparr>data_measurement_unit = ''gram'', data_amount = Some 300\<rparr>)]"

definition sugar_response :: HttpResponse where
  "sugar_response =
     \<lparr>content_type = ''application/pdf'',
      headers = [(''Content-Disposition'',
        ''attachment; filename='' @ [CHR 0x22] @ ''buying_list_03/05/2024, 07:08:09.pdf''
          @ [CHR 0x22])],
      content = [SetFont ''DejaVuSerif'' 15,
                 DrawString 50 800 ''Sugar (gram) - 150'',
                 DrawString 50 775 ''Flour (gram) - 300'',
                 ShowPage, Save]\<rparr>"

section \<open>The loops as one pass over the cart's lines\<close>

lemma ingredients_loop_accumulate:
  "fk_integrity db \<Longrightarrow> set ls \<subseteq> set (RecipeIngredients_objects db) \<Longrightarrow>
   ingredients_loop ls bl db = (accumulate (map (joined db) ls) bl, db)"
proof (induction ls arbitrary: bl)
  case Nil
  then show ?case by simp
next
  case (Cons l ls)
  from Cons.prems have "l \<in> set (RecipeIngredients_objects db)" by simp
  with Cons.prems(1) obtain i where
    i: "find (\<lambda>x. ingredient_id x = ri_ingredient l) (Ingredient_objects db) = Some i"
    by (auto simp: fk_integrity_def list_all_iff)
  show ?case
    using Cons.IH [OF Cons.prems(1)] Cons.prems(2) i
    by (simp add: line_ingredient_def joined_def split: sum.splits)
qed

lemma accumulate_append:
  "accumulate (xs @ ys) bl =
     (case accumulate xs bl of Inl e \<Rightarrow> Inl e | Inr bl' \<Rightarrow> accumulate ys bl')"
  by (induction xs arbitrary: bl) (auto split: sum.splits)

lemma shopping_cart_loop_accumulate:
  "fk_integrity db \<Longrightarrow> set rs \<subseteq> set (ShoppingCart_objects db) \<Longrightarrow>
   shopping_cart_loop rs bl db =
     (accumulate (map (joined db)
        (concat (map (\<lambda>r. filter (\<lambda>l. ri_recipe l = sc_recipe r) (RecipeIngredients_objects db)) rs))) bl, db)"
proof (induction rs arbitrary: bl)
  case Nil
  then show ?case by simp
next
  case (Cons r rs)
  from Cons.prems have "r \<in> set (ShoppingCart_objects db)" by simp
  with Cons.prems(1) obtain x where
    x: "find (\<lambda>x. recipe_id x = sc_recipe r) (Recipe_objects db) = Some x"
    by (auto simp: fk_integrity_def list_all_iff)
  then have rid: "recipe_id x = sc_recipe r"
    by (auto simp: find_Some_iff)
  show ?case
    using Cons.IH [OF Cons.prems(1)] Cons.prems x rid
    by (simp add: record_recipe_def RecipeIngredients_filter_def ingredients_loop_accumulate
          accumulate_append split: sum.splits)
qed

lemma aggregate_accumulate:
  "fk_integrity db \<Longrightarrow> aggregate user db = (accumulate (cart_lines user db) [], db)"
  by (simp add: aggregate_def user_shopping_cart_all_def cart_lines_def cart_rows_def
        shopping_cart_loop_accumulate)

lemma set_first_seen: "set (first_seen xs) = set xs"
  by (induction xs rule: first_seen.induct) auto

lemma distinct_first_seen: "distinct (first_seen xs)"
  by (induction xs rule: first_seen.induct) (auto simp: set_first_seen)

lemma first_seen_snoc:
  "first_seen (xs @ [x]) = (if x \<in> set xs then first_seen xs else first_seen xs @ [x])"
  by (induction xs rule: first_seen.induct) auto

lemma map_of_tabulate:
  "map_of (map (\<lambda>k. (k, f k)) ks) k = (if k \<in> set ks then Some (f k) else None)"
  by (induction ks) auto

lemma dict_set_tabulate:
  "distinct ks \<Longrightarrow> k \<in> set ks \<Longrightarrow>
   dict_set (map (\<lambda>k. (k, f k)) ks) k v = map (\<lambda>k'. (k', if k' = k then v else f k')) ks"
  by (induction ks) auto

lemma null_clash_snoc:
  "null_clash (ts @ [t]) \<longleftrightarrow>
     null_clash ts \<or> (\<exists>u \<in> set ts. cl_name u = cl_name t \<and> (cl_amount u = None \<or> cl_amount t = None))"
  by (induction ts) auto

lemma amounts_of_snoc:
  "amounts_of n (ts @ [t]) = amounts_of n ts @ (if cl_name t = n then [cl_amount t] else [])"
  by (simp add: amounts_of_def)

lemma first_unit_snoc:
  "first_unit n (ts @ [t]) =
     (if n \<in> cl_name ` set ts then first_unit n ts else if cl_name t = n then cl_unit t else [])"
  by (induction ts) (auto simp: first_unit_def)

lemma amounts_of_Nil_iff: "amounts_of n ts = [] \<longleftrightarrow> n \<notin> cl_name ` set ts"
  by (auto simp: amounts_of_def filter_empty_conv)

lemma set_amounts_of: "set (amounts_of n ts) = cl_amount ` {t \<in> set ts. cl_name t = n}"
  by (auto simp: amounts_of_def)

lemma no_clash_amounts:
  "\<not> null_clash ts \<Longrightarrow> None \<in> set (amounts_of n ts) \<Longrightarrow> amounts_of n ts = [None]"
proof (induction ts)
  case Nil
  then show ?case by (simp add: amounts_of_def)
next
  case (Cons t ts)
  then show ?case
    by (auto simp: amounts_of_def filter_empty_conv split: if_splits)
qed

lemma running_total_single: "running_total [a] = a"
  by (simp add: running_total_def)

lemma running_total_Some:
  "None \<notin> set as \<Longrightarrow> as \<noteq> [] \<Longrightarrow> running_total as = Some (sum_list (map the as))"
  by (cases as; cases "tl as") (auto simp: running_total_def)

lemma running_total_snoc:
  "as \<noteq> [] \<Longrightarrow> running_total (as @ [x]) = Some (sum_list (map the as) + the x)"
  by (cases as; cases "tl as") (auto simp: running_total_def)

lemma map_of_expected:
  "map_of (expected ts) n =
     (if n \<in> cl_name ` set ts
      then Some \<lparr>data_measurement_unit = first_unit n ts, data_amount = running_total (amounts_of n ts)\<rparr>
      else None)"
  by (simp add: expected_def map_of_tabulate set_first_seen)

lemma expected_snoc_new:
  assumes "cl_name t \<notin> cl_name ` set ts"
  shows "expected (ts @ [t]) =
           expected ts @ [(cl_name t, \<lparr>data_measurement_unit = cl_unit t, data_amount = cl_amount t\<rparr>)]"
  using assms
  by (auto simp: expected_def first_seen_snoc first_unit_snoc amounts_of_snoc set_first_seen
        running_total_single amounts_of_Nil_iff [THEN iffD2])

lemma expected_snoc_old:
  assumes "cl_name t \<in> cl_name ` set ts"
  shows "expected (ts @ [t]) =
           dict_set (expected ts) (cl_name t)
             \<lparr>data_measurement_unit = first_unit (cl_name t) ts,
              data_amount = Some (sum_list (map the (amounts_of (cl_name t) ts)) + the (cl_amount t))\<rparr>"
proof -
  have ne: "amounts_of (cl_name t) ts \<noteq> []"
    using assms by (simp add: amounts_of_Nil_iff)
  have mem: "cl_name t \<in> set (first_seen (map cl_name ts))"
    using assms by (simp add: set_first_seen)
  show ?thesis
    unfolding expected_def
    using assms ne
    by (subst dict_set_tabulate [OF distinct_first_seen mem])
       (auto simp: first_seen_snoc first_unit_snoc amounts_of_snoc running_total_snoc set_first_seen)
qed

lemma add_ingredient_expected:
  assumes "\<not> null_clash ts"
  shows "add_ingredient (expected ts) (cl_name t) (cl_unit t) (cl_amount t) =
     (if \<exists>u \<in> set ts. cl_name u = cl_name t \<and> (cl_amount u = None \<or> cl_amount t = None)
      then Inl TypeError else Inr (expected (ts @ [t])))"
proof (cases "cl_name t \<in> cl_name ` set ts")
  case False
  then have "\<not> (\<exists>u \<in> set ts. cl_name u = cl_name t \<and> (cl_amount u = None \<or> cl_amount t = None))"
    by (metis imageI)
  with False show ?thesis
    by (simp add: add_ingredient_def map_of_expected expected_snoc_new)
next
  case True
  let ?as = "amounts_of (cl_name t) ts"
  have ne: "?as \<noteq> []" using True by (simp add: amounts_of_Nil_iff)
  show ?thesis
  proof (cases "None \<in> set ?as")
    case n: True
    then have "?as = [None]" using assms no_clash_amounts by blast
    moreover from n have "\<exists>u \<in> set ts. cl_name u = cl_name t \<and> cl_amount u = None"
      by (auto simp: set_amounts_of)
    ultimately show ?thesis
      using True by (auto simp: add_ingredient_def map_of_expected running_total_single)
  next
    case n: False
    then have nn: "\<not> (\<exists>u \<in> set ts. cl_name u = cl_name t \<and> cl_amount u = None)"
      by (force simp: set_amounts_of)
    have tot: "running_total ?as = Some (sum_list (map the ?as))"
      using n ne by (rule running_total_Some)
    show ?thesis
    proof (cases "cl_amount t")
      case None
      with True tot show ?thesis
        by (auto simp: add_ingredient_def map_of_expected)
    next
      case (Some y)
      with True tot nn show ?thesis
        by (auto simp: add_ingredient_def map_of_expected expected_snoc_old)
    qed
  qed
qed

lemma accumulate_expected:
  "accumulate ts [] = (if null_clash ts then Inl TypeError else Inr (expected ts))"
proof (induction ts rule: rev_induct)
  case Nil
  then show ?case by (simp add: expected_def)
next
  case (snoc t ts)
  show ?case
  proof (cases "null_clash ts")
    case True
    with snoc show ?thesis by (simp add: accumulate_append null_clash_snoc)
  next
    case False
    with snoc show ?thesis
      by (simp add: accumulate_append null_clash_snoc add_ingredient_expected split: sum.splits)
  qed
qed

section \<open>The database is only read\<close>

lemma snd_ingredients_loop: "snd (ingredients_loop ls bl db) = db"
  by (induction ls arbitrary: bl)
     (auto simp: line_ingredient_def split: option.splits sum.splits)

lemma ingredients_loop_collapse:
  "ingredients_loop ls bl db = (fst (ingredients_loop ls bl db), db)"
  by (metis prod.collapse snd_ingredients_loop)

lemma snd_shopping_cart_loop: "snd (shopping_cart_loop rs bl db) = db"
proof (induction rs arbitrary: bl)
  case Nil
  then show ?case by simp
next
  case (Cons r rs)
  show ?case
  proof (cases "find (\<lambda>x. recipe_id x = sc_recipe r) (Recipe_objects db)")
    case None
    then show ?thesis by (simp add: record_recipe_def)
  next
    case (Some x)
    let ?ls = "filter (\<lambda>l. ri_recipe l = recipe_id x) (RecipeIngredients_objects db)"
    show ?thesis
    proof (cases "fst (ingredients_loop ?ls bl db)")
      case (Inl e)
      then have "ingredients_loop ?ls bl db = (Inl e, db)"
        using ingredients_loop_collapse [of ?ls bl db] by simp
      with Some show ?thesis
        by (simp add: record_recipe_def RecipeIngredients_filter_def)
    next
      case (Inr bl')
      then have "ingredients_loop ?ls bl db = (Inr bl', db)"
        using ingredients_loop_collapse [of ?ls bl db] by simp
      with Some Cons.IH [of bl'] show ?thesis
        by (simp add: record_recipe_def RecipeIngredients_filter_def)
    qed
  qed
qed

lemma snd_aggregate: "snd (aggregate user db) = db"
  by (simp add: aggregate_def user_shopping_cart_all_def snd_shopping_cart_loop)

lemma aggregate_collapse: "aggregate user db = (fst (aggregate user db), db)"
  by (metis prod.collapse snd_aggregate)

lemma aggregate_expected:
  "fk_integrity db \<Longrightarrow>
   aggregate user db =
     (if null_clash (cart_lines user db) then Inl TypeError
      else Inr (expected (cart_lines user db)), db)"
  by (simp add: aggregate_accumulate accumulate_expected)

lemma map_fst_expected: "map fst (expected ts) = first_seen (map cl_name ts)"
  by (simp add: expected_def comp_def)

lemma in_expected:
  "(n, d) \<in> set (expected ts) \<Longrightarrow>
   n \<in> cl_name ` set ts \<and>
   d = \<lparr>data_measurement_unit = first_unit n ts, data_amount = running_total (amounts_of n ts)\<rparr>"
  by (auto simp: expected_def set_first_seen)

lemma download_collapse: "snd (download_shopping_cart user clock db) = db"
  unfolding download_shopping_cart_def
  by (subst aggregate_collapse) (simp add: Let_def split: sum.splits)

section \<open>Auxiliary facts\<close>

lemma filter_tabulate:
  "distinct ks \<Longrightarrow>
   filter (\<lambda>(k, d). k = n) (map (\<lambda>k. (k, f k)) ks) = (if n \<in> set ks then [(n, f n)] else [])"
  by (induction ks) (auto simp: filter_empty_conv)

lemma find_filter_hd: "filter P xs = y # ys \<Longrightarrow> find P xs = Some y"
  by (induction xs) (auto split: if_splits)

lemma no_null_no_clash: "\<forall>l \<in> set ts. cl_amount l \<noteq> None \<Longrightarrow> \<not> null_clash ts"
  by (induction ts) auto

lemma drawn_text_append: "drawn_text (xs @ ys) = drawn_text xs @ drawn_text ys"
  by (induction xs rule: drawn_text.induct) auto

lemma drawn_text_draw_items: "drawn_text (draw_items bl h) = map item_text bl"
  by (induction bl arbitrary: h) auto

lemma aggregate_answers:
  "fk_integrity db \<Longrightarrow> \<not> null_clash (cart_lines user db) \<Longrightarrow>
   aggregate user db = (Inr (expected (cart_lines user db)), db)"
  by (simp add: aggregate_expected)

lemma download_answers:
  "fk_integrity db \<Longrightarrow> \<not> null_clash (cart_lines user db) \<Longrightarrow>
   download_shopping_cart user clock db =
     (Inr \<lparr>content_type = ''application/pdf'',
           headers = [(''Content-Disposition'',
             ''attachment; filename='' @ [dquote] @ ''buying_list_'' @
               strftime clock ''%m/%d/%Y, %H:%M:%S'' @ ''.pdf'' @ [dquote])],
           content = [SetFont ''DejaVuSerif'' 15] @
             draw_items (expected (cart_lines user db)) 800 @ [ShowPage, Save]\<rparr>, db)"
  by (simp add: download_shopping_cart_def aggregate_answers)

lemma enumerate_Suc_shift: "enumerate (Suc n) xs = map (\<lambda>(i, x). (Suc i, x)) (enumerate n xs)"
  by (induction xs arbitrary: n) auto

lemma draw_items_enumerate:
  "draw_items bl h =
     map (\<lambda>(i, item). DrawString 50 (h - 25 * int i) (item_text item)) (enumerate 0 bl)"
proof (induction bl arbitrary: h)
  case Nil
  then show ?case by simp
next
  case (Cons item bl)
  have "draw_items bl (h - 25) =
          map (\<lambda>(i, item). DrawString 50 (h - 25 * int (Suc i)) (item_text item)) (enumerate 0 bl)"
    by (simp add: Cons.IH algebra_simps)
  then show ?case
    by (simp add: enumerate_Suc_shift [of 0] comp_def case_prod_beta)
qed

lemma strftime_format:
  "strftime dt ''%m/%d/%Y, %H:%M:%S'' =
     zfill 2 (str_nat (month dt)) @ ''/'' @ zfill 2 (str_nat (day dt)) @ ''/'' @
     str_nat (year dt) @ '', '' @ zfill 2 (str_nat (hour dt)) @ '':'' @
     zfill 2 (str_nat (minute dt)) @ '':'' @ zfill 2 (str_nat (second dt))"
  by (simp add: directive_def)

lemma length_str_nat: "0 < k \<Longrightarrow> n < 10 ^ k \<Longrightarrow> length (str_nat n) \<le> k"
proof (induction n arbitrary: k rule: str_nat.induct)
  case (1 n)
  show ?case
  proof (cases "n < 10")
    case True
    with "1.prems" show ?thesis by (subst str_nat.simps) simp
  next
    case False
    with "1.prems" have k: "1 < k"
      by (cases "k = 1") auto
    then obtain j where j: "k = Suc j" "0 < j"
      by (cases k) auto
    from "1.prems" j have "n div 10 < 10 ^ j"
      by (simp add: less_mult_imp_div_less mult.commute)
    from "1.IH" [OF False j(2) this] j False show ?thesis
      by (subst str_nat.simps) simp
  qed
qed

lemma length_zfill: "length (zfill w s) = max w (length s)"
  by (simp add: zfill_def)

lemma length_str_nat_step: "10 \<le> n \<Longrightarrow> length (str_nat n) = Suc (length (str_nat (n div 10)))"
  by (subst str_nat.simps) simp

lemma length_str_nat_digit: "n < 10 \<Longrightarrow> length (str_nat n) = 1"
  by (subst str_nat.simps) simp

lemma length_str_nat_year: "1000 \<le> n \<Longrightarrow> n < 10000 \<Longrightarrow> length (str_nat n) = 4"
proof -
  assume lo: "1000 \<le> n" and hi: "n < 10000"
  have a: "10 \<le> n" using lo by simp
  have b: "10 \<le> n div 10" using lo by simp
  have c: "10 \<le> n div 10 div 10" using lo by simp
  have d: "n div 10 div 10 div 10 < 10" using hi by simp
  show ?thesis
    by (simp add: length_str_nat_step [OF a] length_str_nat_step [OF b]
          length_str_nat_step [OF c] length_str_nat_digit [OF d])
qed

lemma fold_max_ge: "a \<le> fold max xs (a::nat)"
  by (induction xs arbitrary: a) (auto intro: order_trans [OF max.cobounded2])

lemma fold_max_mem: "x \<in> set xs \<Longrightarrow> x \<le> fold max xs (a::nat)"
  by (induction xs arbitrary: a) (auto intro: order_trans [OF max.cobounded1 fold_max_ge])

lemma next_cart_id_fresh: "r \<in> set (ShoppingCart_objects db) \<Longrightarrow> sc_id r < next_cart_id db"
  using fold_max_mem [of "sc_id r" "map sc_id (ShoppingCart_objects db)" 0]
  by (simp add: next_cart_id_def less_Suc_eq_le)

lemma ShoppingCart_filter_Nil_iff:
  "ShoppingCart_filter user rid db = [] \<longleftrightarrow>
     (user, rid) \<notin> set (map (\<lambda>r. (sc_user r, sc_recipe r)) (ShoppingCart_objects db))"
  by (auto simp: ShoppingCart_filter_def filter_empty_conv)

lemma get_unique_pairs:
  "unique_shopping_cart db \<Longrightarrow>
   unique_shopping_cart (snd (ShoppingCartViewSet_get is_valid user rid t db))"
  using ShoppingCart_filter_Nil_iff [of user rid db]
  by (auto simp: ShoppingCartViewSet_get_def Let_def serializer_save_def unique_shopping_cart_def)

lemma get_unique_ids:
  "unique_cart_ids db \<Longrightarrow>
   unique_cart_ids (snd (ShoppingCartViewSet_get is_valid user rid t db))"
proof -
  have "next_cart_id db \<notin> sc_id ` set (ShoppingCart_objects db)"
    using next_cart_id_fresh [of _ db] by (metis imageE less_irrefl)
  then show "unique_cart_ids db \<Longrightarrow> ?thesis"
    by (simp add: ShoppingCartViewSet_get_def Let_def serializer_save_def unique_cart_ids_def)
qed

lemma delete_by_id:
  assumes "distinct (map sc_id rows)" and "filter P rows = [r]"
  shows "filter (\<lambda>x. sc_id x \<noteq> sc_id r) rows = filter (\<lambda>x. \<not> P x) rows"
proof (rule filter_cong [OF refl])
  fix x assume x: "x \<in> set rows"
  from assms(2) have st: "set (filter P rows) = {r}" by simp
  then have r: "r \<in> set rows" "P r" by auto
  have only: "P x \<Longrightarrow> x = r"
    using x st by auto
  have "sc_id x = sc_id r \<Longrightarrow> x = r"
    using assms(1) x r(1) by (meson distinct_map inj_onD)
  with only r(2) show "(sc_id x \<noteq> sc_id r) = (\<not> P x)" by auto
qed

lemma unique_pairs_filter_length:
  assumes "unique_shopping_cart db"
  shows "length (ShoppingCart_filter user rid db) \<le> 1"
proof -
  have "distinct (map f xs) \<Longrightarrow> length (filter (\<lambda>x. f x = v) xs) \<le> 1" for f :: "'a \<Rightarrow> 'b" and xs v
    by (induction xs) (auto simp: filter_empty_conv image_iff)
  from this [of "\<lambda>r. (sc_user r, sc_recipe r)" "ShoppingCart_objects db" "(user, rid)"] assms
  show ?thesis by (simp add: unique_shopping_cart_def ShoppingCart_filter_def)
qed

lemma delete_cases:
  assumes "unique_shopping_cart db" and "unique_cart_ids db"
  shows "ShoppingCartViewSet_delete user rid db =
     (if find (\<lambda>x. recipe_id x = rid) (Recipe_objects db) = None
      then (Inr \<lparr>status = 404, response_data = NoData\<rparr>, db)
      else if ShoppingCart_filter user rid db = []
      then (Inr \<lparr>status = 400, response_data = NoData\<rparr>, db)
      else (Inr \<lparr>status = 204, response_data = NoData\<rparr>,
            db\<lparr>ShoppingCart_objects :=
                 filter (\<lambda>r. \<not> (sc_user r = user \<and> sc_recipe r = rid)) (ShoppingCart_objects db)\<rparr>))"
proof (cases "find (\<lambda>x. recipe_id x = rid) (Recipe_objects db)")
  case None
  then show ?thesis by (simp add: ShoppingCartViewSet_delete_def)
next
  case (Some recipe)
  then have rid: "recipe_id recipe = rid" by (auto simp: find_Some_iff)
  show ?thesis
  proof (cases "ShoppingCart_filter user rid db")
    case Nil
    with Some rid show ?thesis by (simp add: ShoppingCartViewSet_delete_def)
  next
    case (Cons r rs)
    with unique_pairs_filter_length [OF assms(1), of user rid] have rs: "rs = []" by simp
    with Cons have f: "ShoppingCart_filter user rid db = [r]" by simp
    from delete_by_id [OF assms(2) [unfolded unique_cart_ids_def] f [unfolded ShoppingCart_filter_def]]
    show ?thesis
      using Some rid f by (simp add: ShoppingCartViewSet_delete_def)
  qed
qed

subsection \<open>The examples, evaluated\<close>

lemma fk_sugar_db: "fk_integrity sugar_db"
  by code_simp

lemma aggregate_sugar_db: "aggregate 7 sugar_db = (Inr sugar_list, sugar_db)"
  by code_simp

lemma download_sugar_db:
  "download_shopping_cart 7 example_clock sugar_db = (Inr sugar_response, sugar_db)"
  by code_simp

section \<open>Verified properties\<close>

text \<open>
  C1 (as amended). For every cart in which no two rows share a name while one of them
  has no amount, the aggregation returns its lines: exactly one line for every ingredient
  name met in the cart and none for any other name, the amount of a line being the sum of
  the amounts of all the cart's recipe-ingredient rows of that name, over all recipes (a
  name whose single row has no amount shows no amount). On \<open>sugar_db\<close>, sugar with amounts
  100 and 50 in two recipes gives one line with amount 150. Without the condition no lines
  are produced: on \<open>null_db\<close> the call raises \<^verbatim>\<open>TypeError\<close>.
\<close>

theorem aggregate_sums_by_name:
  assumes "fk_integrity db" and "\<not> null_clash (cart_lines user db)"
  shows "\<exists>bl. aggregate user db = (Inr bl, db) \<and>
         distinct (map fst bl) \<and>
         set (map fst bl) = cl_name ` set (cart_lines user db) \<and>
         (\<forall>(n, d) \<in> set bl.
            (None \<notin> set (amounts_of n (cart_lines user db)) \<longrightarrow>
               data_amount d = Some (sum_list (map the (amounts_of n (cart_lines user db))))) \<and>
            (None \<in> set (amounts_of n (cart_lines user db)) \<longrightarrow>
               amounts_of n (cart_lines user db) = [None] \<and> data_amount d = None))"
proof -
  let ?ts = "cart_lines user db"
  let ?bl = "expected ?ts"
  note nc = assms(2)
  have r: "aggregate user db = (Inr ?bl, db)"
    using assms by (rule aggregate_answers)
  have d: "distinct (map fst ?bl)"
    by (simp add: map_fst_expected distinct_first_seen)
  have s: "set (map fst ?bl) = cl_name ` set ?ts"
    by (simp add: map_fst_expected set_first_seen)
  have a: "(None \<notin> set (amounts_of n ?ts) \<longrightarrow>
               data_amount d = Some (sum_list (map the (amounts_of n ?ts)))) \<and>
            (None \<in> set (amounts_of n ?ts) \<longrightarrow>
               amounts_of n ?ts = [None] \<and> data_amount d = None)"
    if "(n, d) \<in> set ?bl" for n d
  proof -
    from that in_expected [of n d ?ts]
    have n: "n \<in> cl_name ` set ?ts" and dd: "data_amount d = running_total (amounts_of n ?ts)"
      by simp_all
    from n have ne: "amounts_of n ?ts \<noteq> []" by (simp add: amounts_of_Nil_iff)
    show ?thesis
      using ne dd no_clash_amounts [OF nc, of n] running_total_Some [of "amounts_of n ?ts"]
      by (auto simp: running_total_single)
  qed
  from r d s a show ?thesis by blast
qed

theorem aggregate_sums_by_name_witness:
  "fk_integrity sugar_db \<and>
   \<not> null_clash (cart_lines 7 sugar_db) \<and>
   aggregate 7 sugar_db = (Inr sugar_list, sugar_db) \<and>
   amounts_of ''Sugar'' (cart_lines 7 sugar_db) = [Some 100, Some 50] \<and>
   map_of sugar_list ''Sugar'' = Some \<lparr>data_measurement_unit = ''gram'', data_amount = Some 150\<rparr> \<and>
   distinct (map fst sugar_list) \<and>
   set (map fst sugar_list) = cl_name ` set (cart_lines 7 sugar_db)"
proof -
  have nc: "\<not> null_clash (cart_lines 7 sugar_db)"
    by code_simp
  have a: "amounts_of ''Sugar'' (cart_lines 7 sugar_db) = [Some 100, Some 50]"
    by code_simp
  have m: "map_of sugar_list ''Sugar'' =
             Some \<lparr>data_measurement_unit = ''gram'', data_amount = Some 150\<rparr>"
    by code_simp
  from aggregate_sums_by_name [OF fk_sugar_db nc]
  obtain bl where bl: "aggregate 7 sugar_db = (Inr bl, sugar_db)"
    and p: "distinct (map fst bl)" "set (map fst bl) = cl_name ` set (cart_lines 7 sugar_db)"
    by blast
  from bl have "bl = sugar_list" by (simp add: aggregate_sugar_db)
  with p fk_sugar_db nc aggregate_sugar_db a m show ?thesis by blast
qed

theorem aggregate_sums_by_name_counterexample:
  "fk_integrity null_db \<and>
   map cl_name (cart_lines 7 null_db) = [''Sugar'', ''Sugar''] \<and>
   map cl_amount (cart_lines 7 null_db) = [None, Some 50] \<and>
   aggregate 7 null_db = (Inl TypeError, null_db)"
  by code_simp

text \<open>
  C2 (as amended). When the cart has two rows whose ingredients share a name and differ in
  the unit, and no two rows of the cart share a name while one of them has no amount, the
  result has exactly one line of that name; its unit is the unit of the row met first, its
  amount is the plain sum of the two amounts, and the unit of the second row does not
  appear. When one of the two rows has no amount there is no result: on \<open>units_null_db\<close>
  the call raises \<^verbatim>\<open>TypeError\<close>.
\<close>

theorem same_name_different_units:
  assumes "fk_integrity db" and "\<not> null_clash (cart_lines user db)"
    and "filter (\<lambda>l. cl_name l = n) (cart_lines user db) = [l1, l2]"
    and "cl_unit l1 \<noteq> cl_unit l2"
  shows "\<exists>bl a1 a2. aggregate user db = (Inr bl, db) \<and>
           cl_amount l1 = Some a1 \<and> cl_amount l2 = Some a2 \<and>
           filter (\<lambda>(k, d). k = n) bl =
             [(n, \<lparr>data_measurement_unit = cl_unit l1, data_amount = Some (a1 + a2)\<rparr>)]"
proof -
  let ?ts = "cart_lines user db"
  note nc = assms(2)
  have r: "aggregate user db = (Inr (expected ?ts), db)"
    using assms(1,2) by (rule aggregate_answers)
  have am: "amounts_of n ?ts = [cl_amount l1, cl_amount l2]"
    by (simp add: amounts_of_def assms(3))
  have "None \<notin> set (amounts_of n ?ts)"
    using no_clash_amounts [OF nc, of n] am by auto
  then obtain a1 a2 where a: "cl_amount l1 = Some a1" "cl_amount l2 = Some a2"
    using am by (cases "cl_amount l1"; cases "cl_amount l2") auto
  have fu: "first_unit n ?ts = cl_unit l1"
    using find_filter_hd [OF assms(3)] by (simp add: first_unit_def)
  have "l1 \<in> set (filter (\<lambda>l. cl_name l = n) ?ts)"
    by (simp add: assms(3))
  then have mem: "n \<in> set (first_seen (map cl_name ?ts))"
    by (auto simp: set_first_seen)
  have "filter (\<lambda>(k, d). k = n) (expected ?ts) =
          [(n, \<lparr>data_measurement_unit = cl_unit l1, data_amount = Some (a1 + a2)\<rparr>)]"
    unfolding expected_def
    using mem by (simp add: filter_tabulate [OF distinct_first_seen] fu am a running_total_def)
  with r a show ?thesis by blast
qed

theorem same_name_different_units_witness:
  "fk_integrity units_db \<and> unique_recipe_ingredient units_db \<and>
   \<not> null_clash (cart_lines 7 units_db) \<and>
   aggregate 7 units_db =
     (Inr [(''Sugar'', \<lparr>data_measurement_unit = ''gram'', data_amount = Some 102\<rparr>)], units_db) \<and>
   filter (\<lambda>l. cl_name l = ''Sugar'') (cart_lines 7 units_db) =
     [\<lparr>cl_name = ''Sugar'', cl_unit = ''gram'', cl_amount = Some 100\<rparr>,
      \<lparr>cl_name = ''Sugar'', cl_unit = ''kilogram'', cl_amount = Some 2\<rparr>] \<and>
   filter (\<lambda>(k, d). k = ''Sugar'')
       [(''Sugar'', \<lparr>data_measurement_unit = ''gram'', data_amount = Some 102\<rparr>)] =
     [(''Sugar'', \<lparr>data_measurement_unit = ''gram'', data_amount = Some (100 + 2)\<rparr>)]"
proof -
  let ?l1 = "\<lparr>cl_name = ''Sugar'', cl_unit = ''gram'', cl_amount = Some 100\<rparr>"
  let ?l2 = "\<lparr>cl_name = ''Sugar'', cl_unit = ''kilogram'', cl_amount = Some 2\<rparr>"
  have h1: "fk_integrity units_db" by code_simp
  have u: "unique_recipe_ingredient units_db" by code_simp
  have nc: "\<not> null_clash (cart_lines 7 units_db)" by code_simp
  have h2: "aggregate 7 units_db =
     (Inr [(''Sugar'', \<lparr>data_measurement_unit = ''gram'', data_amount = Some 102\<rparr>)], units_db)"
    by code_simp
  have h3: "filter (\<lambda>l. cl_name l = ''Sugar'') (cart_lines 7 units_db) = [?l1, ?l2]"
    by code_simp
  have h4: "cl_unit ?l1 \<noteq> cl_unit ?l2" by simp
  from same_name_different_units [OF h1 nc h3 h4] h2
  have "filter (\<lambda>(k, d). k = ''Sugar'')
       [(''Sugar'', \<lparr>data_measurement_unit = ''gram'', data_amount = Some 102\<rparr>)] =
     [(''Sugar'', \<lparr>data_measurement_unit = ''gram'', data_amount = Some (100 + 2)\<rparr>)]"
    by simp
  with h1 u nc h2 h3 show ?thesis by blast
qed

theorem same_name_different_units_counterexample:
  "fk_integrity units_null_db \<and> unique_recipe_ingredient units_null_db \<and>
   cart_lines 7 units_null_db =
     [\<lparr>cl_name = ''Sugar'', cl_unit = ''gram'', cl_amount = Some 100\<rparr>,
      \<lparr>cl_name = ''Sugar'', cl_unit = ''kilogram'', cl_amount = None\<rparr>] \<and>
   aggregate 7 units_null_db = (Inl TypeError, units_null_db)"
  by code_simp

text \<open>
  C3 (as amended). Whenever no two rows of the cart share a name while one of them has no
  amount, the view answers, and the lines are drawn in the order in which the ingredient
  names are first met when the user's cart entries are walked in the order in which the
  database yields them and, within an entry, the rows of its recipe in the order in which
  the database yields them; the document shows the dict in its own order, with no sort.
  The code asks the database for no order, so this need not be the order of creation: on
  \<open>reordered_db\<close> the entry created first is drawn last. With a missing amount added
  nothing is drawn: on \<open>null_db\<close> the call raises.
\<close>

theorem lines_in_first_seen_order:
  assumes "fk_integrity db" and "\<not> null_clash (cart_lines user db)"
  shows "\<exists>bl resp. aggregate user db = (Inr bl, db) \<and>
           download_shopping_cart user clock db = (Inr resp, db) \<and>
           map fst bl = first_seen (map cl_name (cart_lines user db)) \<and>
           drawn_text (content resp) = map item_text bl"
  using assms
  by (simp add: download_answers aggregate_answers map_fst_expected
        drawn_text_append drawn_text_draw_items)

theorem lines_in_first_seen_order_witness:
  "fk_integrity sugar_db \<and>
   \<not> null_clash (cart_lines 7 sugar_db) \<and>
   download_shopping_cart 7 example_clock sugar_db = (Inr sugar_response, sugar_db) \<and>
   map cl_name (cart_lines 7 sugar_db) = [''Sugar'', ''Flour'', ''Sugar''] \<and>
   first_seen (map cl_name (cart_lines 7 sugar_db)) = [''Sugar'', ''Flour''] \<and>
   map fst sugar_list = [''Sugar'', ''Flour''] \<and>
   drawn_text (content sugar_response) = [''Sugar (gram) - 150'', ''Flour (gram) - 300''] \<and>
   drawn_text (content sugar_response) = map item_text sugar_list"
proof -
  have nc: "\<not> null_clash (cart_lines 7 sugar_db)"
    by code_simp
  have n: "map cl_name (cart_lines 7 sugar_db) = [''Sugar'', ''Flour'', ''Sugar'']"
    by code_simp
  have f: "first_seen (map cl_name (cart_lines 7 sugar_db)) = [''Sugar'', ''Flour'']"
    by code_simp
  have d: "drawn_text (content sugar_response) = [''Sugar (gram) - 150'', ''Flour (gram) - 300'']"
    by code_simp
  from lines_in_first_seen_order [OF fk_sugar_db nc, of example_clock]
  obtain bl resp where "aggregate 7 sugar_db = (Inr bl, sugar_db)"
    and "download_shopping_cart 7 example_clock sugar_db = (Inr resp, sugar_db)"
    and p: "map fst bl = first_seen (map cl_name (cart_lines 7 sugar_db))"
      "drawn_text (content resp) = map item_text bl"
    by blast
  then have "bl = sugar_list" "resp = sugar_response"
    by (simp_all add: aggregate_sugar_db download_sugar_db)
  with p f have "map fst sugar_list = [''Sugar'', ''Flour'']"
    "drawn_text (content sugar_response) = map item_text sugar_list"
    by simp_all
  with fk_sugar_db nc download_sugar_db n f d show ?thesis by blast
qed

theorem lines_in_first_seen_order_counterexample:
  "fk_integrity reordered_db \<and>
   map added_date (ShoppingCart_objects reordered_db) = [11, 10] \<and>
   first_seen (map cl_name (cart_lines_by_creation 7 reordered_db)) = [''Sugar'', ''Flour''] \<and>
   map_sum id (drawn_text \<circ> content)
       (fst (download_shopping_cart 7 example_clock reordered_db)) =
     Inr [''Flour (gram) - 300'', ''Sugar (gram) - 100''] \<and>
   map_sum id (map fst) (fst (aggregate 7 reordered_db)) = Inr [''Flour'', ''Sugar''] \<and>
   fst (download_shopping_cart 7 example_clock null_db) = Inl TypeError"
  by code_simp

text \<open>
  C4. For a user without cart entries the aggregation answers: the dict is empty and
  the document is a PDF response with no text line, not an error.
\<close>

theorem empty_cart_empty_document:
  assumes "filter (\<lambda>r. sc_user r = user) (ShoppingCart_objects db) = []"
  shows "aggregate user db = (Inr [], db) \<and>
         (\<exists>resp. download_shopping_cart user clock db = (Inr resp, db) \<and>
            content_type resp = ''application/pdf'' \<and>
            content resp = [SetFont ''DejaVuSerif'' 15, ShowPage, Save] \<and>
            drawn_text (content resp) = [])"
proof -
  have "aggregate user db = (Inr [], db)"
    using assms by (simp add: aggregate_def user_shopping_cart_all_def)
  then show ?thesis
    by (simp add: download_shopping_cart_def)
qed

theorem empty_cart_empty_document_witness:
  "filter (\<lambda>r. sc_user r = 8) (ShoppingCart_objects sugar_db) = [] \<and>
   aggregate 8 sugar_db = (Inr [], sugar_db) \<and>
   (\<exists>resp. download_shopping_cart 8 example_clock sugar_db = (Inr resp, sugar_db) \<and>
      content_type resp = ''application/pdf'' \<and>
      content resp = [SetFont ''DejaVuSerif'' 15, ShowPage, Save] \<and>
      drawn_text (content resp) = [])"
proof -
  have h: "filter (\<lambda>r. sc_user r = 8) (ShoppingCart_objects sugar_db) = []"
    by code_simp
  from empty_cart_empty_document [OF h, of example_clock] h show ?thesis by blast
qed

text \<open>
  C5. Two calls in succession, the second on the database the first one leaves,
  give the same aggregated lines (or the same error) and the same document content,
  whatever the clock reads at either call; with the same clock reading the whole
  responses are equal.
\<close>

theorem aggregate_twice_same_output:
  "fst (aggregate user (snd (aggregate user db))) = fst (aggregate user db) \<and>
   map_sum id content
       (fst (download_shopping_cart user clock2 (snd (download_shopping_cart user clock1 db)))) =
     map_sum id content (fst (download_shopping_cart user clock1 db)) \<and>
   map_sum id content_type
       (fst (download_shopping_cart user clock2 (snd (download_shopping_cart user clock1 db)))) =
     map_sum id content_type (fst (download_shopping_cart user clock1 db)) \<and>
   fst (download_shopping_cart user clock (snd (download_shopping_cart user clock db))) =
     fst (download_shopping_cart user clock db)"
proof -
  have c: "map_sum id content (fst (download_shopping_cart user c db)) =
           map_sum id (\<lambda>bl. [SetFont ''DejaVuSerif'' 15] @ draw_items bl 800 @ [ShowPage, Save])
             (fst (aggregate user db))" for c
    unfolding download_shopping_cart_def
    by (subst aggregate_collapse) (simp add: Let_def split: sum.splits)
  have t: "map_sum id content_type (fst (download_shopping_cart user c db)) =
           map_sum id (\<lambda>bl. ''application/pdf'') (fst (aggregate user db))" for c
    unfolding download_shopping_cart_def
    by (subst aggregate_collapse) (simp add: Let_def split: sum.splits)
  show ?thesis
    by (simp add: download_collapse snd_aggregate c [of clock2] c [of clock1]
          t [of clock2] t [of clock1])
qed

theorem aggregate_twice_same_output_witness:
  "fst (aggregate 7 sugar_db) = Inr sugar_list \<and>
   fst (aggregate 7 (snd (aggregate 7 sugar_db))) = Inr sugar_list \<and>
   fst (download_shopping_cart 7 example_clock sugar_db) = Inr sugar_response \<and>
   fst (download_shopping_cart 7 example_clock
          (snd (download_shopping_cart 7 example_clock sugar_db))) = Inr sugar_response"
  using aggregate_twice_same_output [of 7 sugar_db example_clock example_clock example_clock]
  by (simp add: aggregate_sugar_db download_sugar_db)

text \<open>
  C6. The aggregation routine has no side effects: whatever the cart holds and
  whether the call answers or raises, the database after \<^verbatim>\<open>download_shopping_cart\<close> (and
  after its aggregation part) is the database before it.
\<close>

theorem download_shopping_cart_reads_only:
  "snd (download_shopping_cart user clock db) = db \<and> snd (aggregate user db) = db"
  by (simp add: download_collapse snd_aggregate)

theorem download_shopping_cart_reads_only_witness:
  "snd (download_shopping_cart 7 example_clock sugar_db) = sugar_db \<and>
   fst (download_shopping_cart 7 example_clock null_db) = Inl TypeError \<and>
   snd (download_shopping_cart 7 example_clock null_db) = null_db"
proof -
  have "fst (download_shopping_cart 7 example_clock null_db) = Inl TypeError"
    by code_simp
  with download_shopping_cart_reads_only [of 7 example_clock sugar_db]
    download_shopping_cart_reads_only [of 7 example_clock null_db]
  show ?thesis by blast
qed

text \<open>
  C7. For every dict of aggregated lines the drawing loop makes one
  \<^verbatim>\<open>drawString\<close> call per entry, in order, with the text \<^verbatim>\<open>name (unit) - amount\<close>, at
  x = 50 and at a height that starts at the given one and goes down by 25 from each line
  to the next.
\<close>

theorem one_text_line_per_entry:
  "draw_items bl h =
     map (\<lambda>(i, (n, d)).
            DrawString 50 (h - 25 * int i)
              (n @ '' ('' @ data_measurement_unit d @ '') - '' @ py_str (data_amount d)))
         (enumerate 0 bl) \<and>
   length (draw_items bl h) = length bl"
  by (simp add: draw_items_enumerate item_text_def case_prod_beta)

theorem one_text_line_per_entry_witness:
  "draw_items sugar_list 800 =
     [DrawString 50 800 ''Sugar (gram) - 150'', DrawString 50 775 ''Flour (gram) - 300''] \<and>
   length (draw_items sugar_list 800) = length sugar_list"
proof -
  have "draw_items sugar_list 800 =
     [DrawString 50 800 ''Sugar (gram) - 150'', DrawString 50 775 ''Flour (gram) - 300'']"
    by code_simp
  with one_text_line_per_entry [of sugar_list 800] show ?thesis by blast
qed

text \<open>
  C8 (as amended). Whenever no two rows of the cart share a name while one of them has no
  amount, the view answers, with the content type \<^verbatim>\<open>application/pdf\<close> and the header
  \<^verbatim>\<open>Content-Disposition\<close> naming the file \<^verbatim>\<open>buying_list_<timestamp>.pdf\<close>, the timestamp being
  the clock of the call as month/day/year, hours:minutes:seconds, month, day, hours,
  minutes and seconds padded to two digits: the 20 characters \<^verbatim>\<open>MM/DD/YYYY, HH:MM:SS\<close> for
  the years 1000 to 9999. An invocation that adds a missing amount has no output at all:
  on \<open>null_db\<close> the call raises \<^verbatim>\<open>TypeError\<close> before the response is made.
\<close>

theorem pdf_with_timestamped_name:
  assumes "fk_integrity db" and "\<not> null_clash (cart_lines user db)"
  shows "\<exists>resp. download_shopping_cart user clock db = (Inr resp, db) \<and>
         content_type resp = ''application/pdf'' \<and>
         map_of (headers resp) ''Content-Disposition'' =
           Some (''attachment; filename='' @ [dquote] @ ''buying_list_'' @
                 zfill 2 (str_nat (month clock)) @ ''/'' @ zfill 2 (str_nat (day clock)) @ ''/'' @
                 str_nat (year clock) @ '', '' @ zfill 2 (str_nat (hour clock)) @ '':'' @
                 zfill 2 (str_nat (minute clock)) @ '':'' @ zfill 2 (str_nat (second clock)) @
                 ''.pdf'' @ [dquote]) \<and>
         (1000 \<le> year clock \<and> year clock < 10000 \<and> month clock < 100 \<and> day clock < 100 \<and>
          hour clock < 100 \<and> minute clock < 100 \<and> second clock < 100 \<longrightarrow>
            length (strftime clock ''%m/%d/%Y, %H:%M:%S'') = 20)"
proof -
  have l2: "length (zfill 2 (str_nat n)) = 2" if "n < 100" for n
    using length_str_nat [of 2 n] that by (simp add: length_zfill)
  have len: "length (strftime clock ''%m/%d/%Y, %H:%M:%S'') = 20"
    if "1000 \<le> year clock \<and> year clock < 10000 \<and> month clock < 100 \<and> day clock < 100 \<and>
          hour clock < 100 \<and> minute clock < 100 \<and> second clock < 100"
    using that unfolding strftime_format by (simp add: l2 length_str_nat_year)
  show ?thesis
    using len unfolding download_answers [OF assms] strftime_format by simp
qed

theorem pdf_with_timestamped_name_witness:
  "fk_integrity sugar_db \<and>
   \<not> null_clash (cart_lines 7 sugar_db) \<and>
   download_shopping_cart 7 example_clock sugar_db = (Inr sugar_response, sugar_db) \<and>
   content_type sugar_response = ''application/pdf'' \<and>
   map_of (headers sugar_response) ''Content-Disposition'' =
     Some (''attachment; filename='' @ [CHR 0x22] @ ''buying_list_03/05/2024, 07:08:09.pdf''
             @ [CHR 0x22]) \<and>
   strftime example_clock ''%m/%d/%Y, %H:%M:%S'' = ''03/05/2024, 07:08:09'' \<and>
   length (strftime example_clock ''%m/%d/%Y, %H:%M:%S'') = 20"
proof -
  have nc: "\<not> null_clash (cart_lines 7 sugar_db)"
    by code_simp
  have r: "1000 \<le> year example_clock \<and> year example_clock < 10000 \<and>
           month example_clock < 100 \<and> day example_clock < 100 \<and>
           hour example_clock < 100 \<and> minute example_clock < 100 \<and> second example_clock < 100"
    by (simp add: example_clock_def)
  have s: "strftime example_clock ''%m/%d/%Y, %H:%M:%S'' = ''03/05/2024, 07:08:09''"
    by code_simp
  have m: "map_of (headers sugar_response) ''Content-Disposition'' =
     Some (''attachment; filename='' @ [CHR 0x22] @ ''buying_list_03/05/2024, 07:08:09.pdf''
             @ [CHR 0x22])"
    by (simp add: sugar_response_def)
  from pdf_with_timestamped_name [OF fk_sugar_db nc, of example_clock] r
  obtain resp where "download_shopping_cart 7 example_clock sugar_db = (Inr resp, sugar_db)"
    and p: "content_type resp = ''application/pdf''"
      "length (strftime example_clock ''%m/%d/%Y, %H:%M:%S'') = 20"
    by blast
  then have "resp = sugar_response" by (simp add: download_sugar_db)
  with p fk_sugar_db nc download_sugar_db s m show ?thesis by blast
qed

theorem pdf_with_timestamped_name_counterexample:
  "fk_integrity null_db \<and>
   null_clash (cart_lines 7 null_db) \<and>
   download_shopping_cart 7 example_clock null_db = (Inl TypeError, null_db)"
  by code_simp

text \<open>
  C9. A (user, recipe) pair is in the cart at most once, and adding, removing,
  downloading and the cascade of a recipe's deletion keep it so (as they keep the primary
  keys distinct). Adding a pair that is
  in the cart answers 400 and leaves the database as it is. Removing answers 404 for an
  unknown recipe and 400 for a pair that is not in the cart, both without a change, and
  otherwise 204, deleting the entry of that pair and nothing else.
\<close>

theorem cart_uniqueness_preserved:
  assumes "unique_shopping_cart db" and "unique_cart_ids db"
  shows "unique_shopping_cart (snd (ShoppingCartViewSet_get is_valid user rid t db)) \<and>
         unique_cart_ids (snd (ShoppingCartViewSet_get is_valid user rid t db)) \<and>
         unique_shopping_cart (snd (ShoppingCartViewSet_delete user rid db)) \<and>
         unique_cart_ids (snd (ShoppingCartViewSet_delete user rid db)) \<and>
         unique_shopping_cart (snd (download_shopping_cart user clock db)) \<and>
         unique_shopping_cart (Recipe_delete rid db) \<and>
         unique_cart_ids (Recipe_delete rid db) \<and>
         (ShoppingCart_filter user rid db \<noteq> [] \<longrightarrow>
            ShoppingCartViewSet_get is_valid user rid t db =
              (\<lparr>status = 400, response_data = AlreadyInCart\<rparr>, db)) \<and>
         ShoppingCartViewSet_delete user rid db =
           (if find (\<lambda>x. recipe_id x = rid) (Recipe_objects db) = None
            then (Inr \<lparr>status = 404, response_data = NoData\<rparr>, db)
            else if ShoppingCart_filter user rid db = []
            then (Inr \<lparr>status = 400, response_data = NoData\<rparr>, db)
            else (Inr \<lparr>status = 204, response_data = NoData\<rparr>,
                  db\<lparr>ShoppingCart_objects :=
                       filter (\<lambda>r. \<not> (sc_user r = user \<and> sc_recipe r = rid))
                         (ShoppingCart_objects db)\<rparr>))"
proof -
  have d: "snd (download_shopping_cart user clock db) = db"
    unfolding download_shopping_cart_def
    by (subst aggregate_collapse) (simp add: Let_def split: sum.splits)
  have del: "unique_shopping_cart (snd (ShoppingCartViewSet_delete user rid db)) \<and>
             unique_cart_ids (snd (ShoppingCartViewSet_delete user rid db))"
    using assms unfolding delete_cases [OF assms]
    by (auto simp: unique_shopping_cart_def unique_cart_ids_def distinct_map_filter)
  have dup: "ShoppingCartViewSet_get is_valid user rid t db =
              (\<lparr>status = 400, response_data = AlreadyInCart\<rparr>, db)"
    if "ShoppingCart_filter user rid db \<noteq> []"
    using that by (simp add: ShoppingCartViewSet_get_def)
  have casc: "unique_shopping_cart (Recipe_delete rid db) \<and> unique_cart_ids (Recipe_delete rid db)"
    using assms
    by (simp add: Recipe_delete_def unique_shopping_cart_def unique_cart_ids_def
          distinct_map_filter)
  show ?thesis
    using get_unique_pairs [OF assms(1)] get_unique_ids [OF assms(2)] del d assms(1) dup casc
      delete_cases [OF assms]
    by simp
qed

theorem cart_uniqueness_preserved_witness:
  "unique_shopping_cart sugar_db \<and> unique_cart_ids sugar_db \<and>
   ShoppingCart_filter 7 1 sugar_db \<noteq> [] \<and>
   ShoppingCartViewSet_get recipe_exists 7 1 12 sugar_db =
     (\<lparr>status = 400, response_data = AlreadyInCart\<rparr>, sugar_db) \<and>
   ShoppingCartViewSet_delete 7 1 sugar_db =
     (Inr \<lparr>status = 204, response_data = NoData\<rparr>,
      sugar_db\<lparr>ShoppingCart_objects :=
        [\<lparr>sc_id = 2, sc_user = 7, sc_recipe = 2, added_date = 11\<rparr>]\<rparr>) \<and>
   fst (ShoppingCartViewSet_get recipe_exists 8 1 12 sugar_db) =
     \<lparr>status = 201, response_data = SerializerData 8 1\<rparr> \<and>
   unique_shopping_cart (snd (ShoppingCartViewSet_get recipe_exists 8 1 12 sugar_db))"
proof -
  have h1: "unique_shopping_cart sugar_db" by code_simp
  have h2: "unique_cart_ids sugar_db" by code_simp
  have e: "ShoppingCart_filter 7 1 sugar_db \<noteq> []" by code_simp
  have g: "fst (ShoppingCartViewSet_get recipe_exists 8 1 12 sugar_db) =
     \<lparr>status = 201, response_data = SerializerData 8 1\<rparr>" by code_simp
  have d: "ShoppingCartViewSet_delete 7 1 sugar_db =
     (Inr \<lparr>status = 204, response_data = NoData\<rparr>,
      sugar_db\<lparr>ShoppingCart_objects :=
        [\<lparr>sc_id = 2, sc_user = 7, sc_recipe = 2, added_date = 11\<rparr>]\<rparr>)" by code_simp
  from cart_uniqueness_preserved [OF h1 h2, of recipe_exists 7 1 12 example_clock] e
  have 1: "ShoppingCartViewSet_get recipe_exists 7 1 12 sugar_db =
     (\<lparr>status = 400, response_data = AlreadyInCart\<rparr>, sugar_db)"
    by blast
  from cart_uniqueness_preserved [OF h1 h2, of recipe_exists 8 1 12 example_clock]
  have 2: "unique_shopping_cart (snd (ShoppingCartViewSet_get recipe_exists 8 1 12 sugar_db))"
    by blast
  from h1 h2 e 1 d g 2 show ?thesis by blast
qed

text \<open>
  C10. The aggregation is not total: the column allows a missing amount, and when two
  rows of the cart share a name and one of them has no amount, the loop adds \<^verbatim>\<open>None\<close> to
  the running sum and the call raises \<^verbatim>\<open>TypeError\<close>. In every other case it answers. When
  all amounts of the cart's rows are present, no error is raised and every amount of the
  result is an integer.
\<close>

theorem errors_iff_null_is_added:
  assumes "fk_integrity db"
  shows "(null_clash (cart_lines user db) \<longrightarrow>
            fst (aggregate user db) = Inl TypeError \<and>
            fst (download_shopping_cart user clock db) = Inl TypeError) \<and>
         (\<not> null_clash (cart_lines user db) \<longrightarrow>
            (\<exists>bl resp. fst (aggregate user db) = Inr bl \<and>
               fst (download_shopping_cart user clock db) = Inr resp)) \<and>
         ((\<forall>l \<in> set (cart_lines user db). cl_amount l \<noteq> None) \<longrightarrow>
            \<not> null_clash (cart_lines user db) \<and>
            (\<exists>bl. fst (aggregate user db) = Inr bl \<and>
               (\<forall>(n, d) \<in> set bl. \<exists>a. data_amount d = Some a)))"
proof -
  let ?ts = "cart_lines user db"
  have 1: "fst (aggregate user db) = Inl TypeError \<and>
           fst (download_shopping_cart user clock db) = Inl TypeError" if "null_clash ?ts"
    using that assms by (simp add: download_shopping_cart_def aggregate_expected)
  have 2: "\<exists>bl resp. fst (aggregate user db) = Inr bl \<and>
               fst (download_shopping_cart user clock db) = Inr resp" if "\<not> null_clash ?ts"
    using that assms by (simp add: download_shopping_cart_def aggregate_expected)
  have 3: "\<not> null_clash ?ts \<and>
            (\<exists>bl. fst (aggregate user db) = Inr bl \<and>
               (\<forall>(n, d) \<in> set bl. \<exists>a. data_amount d = Some a))"
    if nn: "\<forall>l \<in> set ?ts. cl_amount l \<noteq> None"
  proof -
    from nn have nc: "\<not> null_clash ?ts" by (rule no_null_no_clash)
    have "\<exists>a. data_amount d = Some a" if "(n, d) \<in> set (expected ?ts)" for n d
    proof -
      from in_expected [OF that]
      have n: "n \<in> cl_name ` set ?ts" and dd: "data_amount d = running_total (amounts_of n ?ts)"
        by simp_all
      from n have ne: "amounts_of n ?ts \<noteq> []" by (simp add: amounts_of_Nil_iff)
      have "None \<notin> set (amounts_of n ?ts)"
        using nn by (auto simp: set_amounts_of)
      then show ?thesis using running_total_Some [OF _ ne] dd by simp
    qed
    with nc assms show ?thesis
      by (auto simp: aggregate_expected)
  qed
  from 1 2 3 show ?thesis by blast
qed

theorem errors_iff_null_is_added_witness:
  "fk_integrity null_db \<and> null_clash (cart_lines 7 null_db) \<and>
   fst (aggregate 7 null_db) = Inl TypeError \<and>
   fst (download_shopping_cart 7 example_clock null_db) = Inl TypeError \<and>
   fk_integrity sugar_db \<and>
   list_all (\<lambda>l. cl_amount l \<noteq> None) (cart_lines 7 sugar_db) \<and>
   \<not> null_clash (cart_lines 7 sugar_db) \<and>
   (\<exists>bl resp. fst (aggregate 7 sugar_db) = Inr bl \<and>
      fst (download_shopping_cart 7 example_clock sugar_db) = Inr resp)"
proof -
  have h1: "fk_integrity null_db" by code_simp
  have c: "null_clash (cart_lines 7 null_db)" by code_simp
  have nn: "list_all (\<lambda>l. cl_amount l \<noteq> None) (cart_lines 7 sugar_db)" by code_simp
  then have nn': "\<forall>l \<in> set (cart_lines 7 sugar_db). cl_amount l \<noteq> None"
    by (simp add: list_all_iff)
  from errors_iff_null_is_added [OF h1, of 7 example_clock] c
  have 1: "fst (aggregate 7 null_db) = Inl TypeError \<and>
           fst (download_shopping_cart 7 example_clock null_db) = Inl TypeError"
    by blast
  from errors_iff_null_is_added [OF fk_sugar_db, of 7 example_clock] nn'
  have 2: "\<not> null_clash (cart_lines 7 sugar_db) \<and>
           (\<exists>bl resp. fst (aggregate 7 sugar_db) = Inr bl \<and>
              fst (download_shopping_cart 7 example_clock sugar_db) = Inr resp)"
    by blast
  from h1 c 1 fk_sugar_db nn 2 show ?thesis by blast
qed

end
